theory Spec2Isabelle
  imports Complex_Main
begin

section \<open>Dates\<close>

text \<open>
  A JavaScript \<^verbatim>\<open>Date\<close> is its time value: milliseconds since the epoch, an integer, or
  NaN for an Invalid Date. The classifiers use the \<^verbatim>\<open>expiryDate\<close> field in two ways
  only: its truthiness and \<^verbatim>\<open>new Date(expiryDate)\<close>. The field is therefore modelled
  by what those two give:
  \<^item> \<open>NoDate\<close>: a falsy field (undefined, null, the empty string);
  \<^item> \<open>BadDate\<close>: a truthy field that \<^verbatim>\<open>new Date\<close> turns into an Invalid Date;
  \<^item> \<open>DateAt t\<close>: a truthy field whose Date has the time value \<open>t\<close>.
  A comparison \<^verbatim>\<open>expiry < today\<close> with an Invalid Date is false.
\<close>

datatype expiry_field = NoDate | BadDate | DateAt int

definition msPerDay :: int where
  "msPerDay = 86400000"

text \<open>
  \<^verbatim>\<open>today.setHours(0, 0, 0, 0)\<close> moves a Date to the start of its local calendar day.
  \<open>tz\<close> is the offset of local time from UTC in milliseconds, taken as constant over the
  day (no daylight-saving change).
\<close>

definition setHours0 :: "int \<Rightarrow> int \<Rightarrow> int" where
  "setHours0 tz t = t - (t + tz) mod msPerDay"

section \<open>The medicine record\<close>

text \<open>
  \<^verbatim>\<open>Partial<MedicineInfo>\<close> of the client page; \<open>None\<close> is an undefined field. The
  fields manufacturer, batchNumber and strength are never read by a classifier. The server
  reads the same fields from \<^verbatim>\<open>req.body.medicineInfo\<close>, with \<^verbatim>\<open>expiryNotAvailable\<close>
  beside them (its truthiness is all that is used).
\<close>

record medicineInfo =
  name :: "string option"
  expiryDate :: expiry_field
  condition :: "string option"
  medicineType :: "string option"

record medicineInfoBody = medicineInfo +
  expiryNotAvailable :: bool

section \<open>The client classifier: getRecommendation\<close>

datatype disposition = Keep | Donate | Dispose | Consult

record Recommendation =
  recommendation :: disposition
  reasoning :: string
  instructions :: "string list"
  resources :: "string list"
  warnings :: "string list"

text \<open>\<^verbatim>\<open>!s\<close> for an optional string: undefined and the empty string are falsy.\<close>

definition falsy :: "string option \<Rightarrow> bool" where
  "falsy s = (s = None \<or> s = Some [])"

text \<open>
  The six object literals that \<^verbatim>\<open>getRecommendation\<close> assigns to \<^verbatim>\<open>result\<close>, in the
  order of its branches.
\<close>

definition unknownExpiryResult :: Recommendation where
  "unknownExpiryResult =
    \<lparr> recommendation = Consult,
      reasoning = ''Since the expiry date is not visible, we cannot confirm its safety. Consuming or donating medicine with an unknown expiry date poses significant health risks.'',
      instructions =
        [''Please consult a pharmacist for professional identification if possible.'',
         ''If the medicine cannot be identified, follow safe disposal guidelines.'',
         ''Do not share or donate this medicine.''],
      resources = [''Pharmacist Consultation'', ''Safe Disposal Guidelines''],
      warnings = [''Unknown expiry dates are a major safety concern.''] \<rparr>"

definition expiredResult :: Recommendation where
  "expiredResult =
    \<lparr> recommendation = Dispose,
      reasoning = ''This medicine has passed its expiration date. Expired medicines can be less effective or even risky due to changes in chemical composition.'',
      instructions =
        [''Do not consume or donate this medicine.'',
         ''Use a drug take-back program if available.'',
         ''If throwing in trash: Mix with unpalatable substance (dirt, kitty litter), seal in a bag, and scratch out personal info.''],
      resources = [''FDA Disposal Guidelines'', ''Local Pharmacy Take-back''],
      warnings = [''Expired medicines should never be shared or donated.''] \<rparr>"

definition controlledResult :: Recommendation where
  "controlledResult =
    \<lparr> recommendation = Dispose,
      reasoning = ''This is a controlled substance. These require strict handling and cannot be donated due to legal and safety regulations.'',
      instructions =
        [''Must be disposed of through authorized collectors or take-back programs.'',
         ''Check the DEA website for authorized disposal locations.'',
         ''Do not flush unless specifically instructed by the FDA 'flush list'.''],
      resources = [''DEA Diversion Control Division'', ''Pharmacist Consultation''],
      warnings = [''Illegal to share or donate controlled substances.''] \<rparr>"

definition notSureResult :: Recommendation where
  "notSureResult =
    \<lparr> recommendation = Consult,
      reasoning = ''Safety First: Since you are unsure about the medicine type, we cannot provide an automated recommendation.'',
      instructions =
        [''Take the medicine to a local pharmacist for identification.'',
         ''Keep the medicine in its original packaging if possible.'',
         ''Do not consume or donate until professionally identified.''],
      resources = [''Local Pharmacist'', ''Healthcare Provider''],
      warnings = [''Identifying unknown medicines yourself can be dangerous.''] \<rparr>"

definition openedResult :: Recommendation where
  "openedResult =
    \<lparr> recommendation = Dispose,
      reasoning = ''This medicine has been opened or partially used. For safety and hygiene reasons, opened medicines should not be donated.'',
      instructions =
        [''Opened medicines can be contaminated or degraded.'',
         ''Dispose of following standard safe disposal procedures.'',
         ''Consider checking for a local pharmacy disposal kiosk.''],
      resources = [''Safe Disposal Guide''],
      warnings = [''Donating opened medicine is a safety risk to the recipient.''] \<rparr>"

definition donateResult :: Recommendation where
  "donateResult =
    \<lparr> recommendation = Donate,
      reasoning = ''Based on general guidelines, this medicine may be eligible for donation. It is unexpired, unopened, and appears suitable for helping others.'',
      instructions =
        [''Keep the medicine in its original, sealed packaging.'',
         ''Store in a cool, dry place until you can donate.'',
         ''Contact the donation center first to confirm they accept this specific brand.''],
      resources = [''Medicine Donation Centers'', ''Local Hospitals''],
      warnings = [''This is a general guideline; final acceptance is at the center's discretion.''] \<rparr>"

text \<open>
  \<^verbatim>\<open>getRecommendation\<close> of the DonateDispose page. \<open>now\<close> is \<^verbatim>\<open>new Date()\<close> at the
  call, the second argument the page's \<^verbatim>\<open>medicineInfo\<close> state and the third its
  \<^verbatim>\<open>expiryNotAvailable\<close> state. The early \<^verbatim>\<open>return\<close> of the guard sets no
  recommendation: \<open>None\<close>.
\<close>

definition getRecommendation ::
  "int \<Rightarrow> 'a medicineInfo_scheme \<Rightarrow> bool \<Rightarrow> Recommendation option" where
  "getRecommendation now info notAvailable =
    (if falsy (name info) \<or> (expiryDate info = NoDate \<and> \<not> notAvailable) then None
     else Some
      (if notAvailable then unknownExpiryResult
       else
         let today = now;
             isExpired = (case expiryDate info of DateAt expiry \<Rightarrow> expiry < today | _ \<Rightarrow> False)
         in
         if isExpired then expiredResult
         else if medicineType info = Some ''controlled'' then controlledResult
         else if medicineType info = Some ''not-sure'' then notSureResult
         else if condition info \<noteq> Some ''unopened'' then openedResult
         else donateResult))"

section \<open>The server classifier: getDonateDisposeRecommendation\<close>

record guidelines =
  safeDisposal :: "string list"
  hazardous :: "string list"

definition DISPOSAL_GUIDELINES :: guidelines where
  "DISPOSAL_GUIDELINES =
    \<lparr> safeDisposal =
        [''Mix medicines (do not crush) with an unpalatable substance such as dirt, kitty litter, or used coffee grounds.'',
         ''Place the mixture in a container such as a sealed plastic bag.'',
         ''Throw the container in your household trash.'',
         ''Scratch out all personal information on the prescription label of your empty pill bottle or empty medicine packaging to make it unreadable, then dispose of the container.''],
      hazardous =
        [''Check if your community has a permanent drug disposal box or take-back program.'',
         ''Ask your pharmacy if they have a disposal kiosk.''] \<rparr>"

text \<open>
  A donation centre, its fields in the order name, type, address, phone, coordinates
  (lat, lng), accepts, distance, hours, rating, verified.
\<close>

datatype center =
  Center string string string string "real \<times> real" "string list" string string real bool

definition MOCK_CENTERS :: "center list" where
  "MOCK_CENTERS =
    [Center ''City General Hospital'' ''Hospital'' ''123 Medical Center Dr'' ''(555) 0123''
       (40.7128, - 74.0060) [''Unopened'', ''Unexpired'', ''Sealed''] ''1.2 miles''
       ''Open 24/7'' 4.8 True,
     Center ''Community Care Pharmacy'' ''Pharmacy'' ''456 Oak St'' ''(555) 0456''
       (40.7138, - 74.0070) [''Unopened'', ''Unexpired''] ''2.5 miles''
       ''08:00 - 22:00'' 4.5 True]"

text \<open>
  The \<^verbatim>\<open>data\<close> object of the JSON response: \<^verbatim>\<open>recommendation\<close>, \<^verbatim>\<open>reasoning\<close>
  and the spread \<^verbatim>\<open>resultData\<close>. The fields carry the prefix \<open>srv_\<close> where the client's
  record has the name already; a field that a branch does not set is \<open>None\<close> (a null
  \<^verbatim>\<open>geocodedCenter\<close> too). The echoed \<^verbatim>\<open>medicineInfo\<close> and the \<^verbatim>\<open>timestamp\<close> of
  the response are left out.
\<close>

record responseData =
  srv_recommendation :: string
  srv_reasoning :: string
  srv_instructions :: "string list"
  srv_warnings :: "string list option"
  srv_guidelines :: "guidelines option"
  nearbyCenters :: "center list option"
  geocodedCenter :: "(real \<times> real) option"
  srv_source :: "string option"
  srv_message :: "string option"

datatype response = Status400 | Status200 responseData

text \<open>
  The response data of each branch of the handler: \<^verbatim>\<open>recommendation\<close>,
  \<^verbatim>\<open>reasoning\<close> and \<^verbatim>\<open>resultData\<close> as the branch assigns them. The last one depends
  on what \<^verbatim>\<open>fetchNearbyPlaces(location)\<close> returned.
\<close>

definition srvUnknownExpiry :: responseData where
  "srvUnknownExpiry =
    \<lparr> srv_recommendation = ''Consult'',
      srv_reasoning = ''Since the expiry date is not visible, we cannot confirm its safety. Consuming or donating medicine with an unknown expiry date poses significant health risks.'',
      srv_instructions =
        [''Please consult a pharmacist for professional identification if possible.'',
         ''If the medicine cannot be identified, follow safe disposal guidelines.'',
         ''Do not share or donate this medicine.''],
      srv_warnings = Some [''Unknown expiry dates are a major safety concern.''],
      srv_guidelines = None,
      nearbyCenters = None, geocodedCenter = None, srv_source = None, srv_message = None \<rparr>"

definition srvExpired :: responseData where
  "srvExpired =
    \<lparr> srv_recommendation = ''Dispose'',
      srv_reasoning = ''This medicine has passed its expiration date. Expired medicines can be less effective or even risky due to changes in chemical composition.'',
      srv_instructions =
        [''Do not consume or donate this medicine.'',
         ''Use a drug take-back program if available.'',
         ''If throwing in trash: Mix with unpalatable substance (dirt, kitty litter), seal in a bag, and scratch out personal info.''],
      srv_warnings = None,
      srv_guidelines = Some DISPOSAL_GUIDELINES,
      nearbyCenters = None, geocodedCenter = None, srv_source = None, srv_message = None \<rparr>"

definition srvControlled :: responseData where
  "srvControlled =
    \<lparr> srv_recommendation = ''Dispose'',
      srv_reasoning = ''This is a controlled substance. These require strict handling and cannot be donated due to legal and safety regulations.'',
      srv_instructions =
        [''Must be disposed of through authorized collectors or take-back programs.'',
         ''Check the DEA website for authorized disposal locations.'',
         ''Do not flush unless specifically instructed by the FDA 'flush list'.''],
      srv_warnings = None,
      srv_guidelines = Some DISPOSAL_GUIDELINES,
      nearbyCenters = None, geocodedCenter = None, srv_source = None, srv_message = None \<rparr>"

definition srvNotSure :: responseData where
  "srvNotSure =
    \<lparr> srv_recommendation = ''Consult'',
      srv_reasoning = ''Safety First: Since you are unsure about the medicine type, we cannot provide an automated recommendation.'',
      srv_instructions =
        [''Take the medicine to a local pharmacist for identification.'',
         ''Keep the medicine in its original packaging if possible.'',
         ''Do not consume or donate until professionally identified.''],
      srv_warnings = None,
      srv_guidelines = None,
      nearbyCenters = None, geocodedCenter = None, srv_source = None, srv_message = None \<rparr>"

definition srvOpened :: responseData where
  "srvOpened =
    \<lparr> srv_recommendation = ''Dispose'',
      srv_reasoning = ''This medicine has been opened or partially used. For safety and hygiene reasons, opened medicines should not be donated.'',
      srv_instructions =
        [''Opened medicines can be contaminated or degraded.'',
         ''Dispose of following standard safe disposal procedures.'',
         ''Consider checking for a local pharmacy disposal kiosk.''],
      srv_warnings = None,
      srv_guidelines = Some DISPOSAL_GUIDELINES,
      nearbyCenters = None, geocodedCenter = None, srv_source = None, srv_message = None \<rparr>"

definition srvDonate :: "center list \<times> (real \<times> real) option \<Rightarrow> string option \<Rightarrow> responseData" where
  "srvDonate fetched location =
    (case fetched of (centers, geocoded) \<Rightarrow>
       let usedMock = (centers = []);
           nearby = (if usedMock then MOCK_CENTERS else centers)
       in
       \<lparr> srv_recommendation = ''Donate'',
         srv_reasoning = ''Based on general guidelines, this medicine may be eligible for donation. It is unexpired, unopened, and appears suitable for helping others.'',
         srv_instructions =
           [''Keep the medicine in its original, sealed packaging.'',
            ''Store in a cool, dry place until you can donate.'',
            ''Contact the donation center first to confirm they accept this specific brand.''],
         srv_warnings = None,
         srv_guidelines = None,
         nearbyCenters = Some nearby,
         geocodedCenter = geocoded,
         srv_source = Some (if usedMock then ''Mock Data'' else ''OpenStreetMap''),
         srv_message = Some
           (if usedMock
            then ''We couldn't find your location interactively, so here are some example centers. Please check your local maps.''
            else ''Here are some donation centers found near '' @
                 (if falsy location then ''you'' else the location) @ '':'') \<rparr>)"

text \<open>
  The handler. \<open>tz\<close> and \<open>now\<close> give the server's clock, \<open>fetchNearbyPlaces\<close> is the
  outcome of the network lookup for a location (it catches its own errors and always
  returns a list and a centre or null), \<open>body\<close> is \<^verbatim>\<open>req.body.medicineInfo\<close> (\<open>None\<close> when
  falsy) and \<open>location\<close> is \<^verbatim>\<open>req.body.location\<close>.
\<close>

definition getDonateDisposeRecommendation ::
  "int \<Rightarrow> int \<Rightarrow> (string option \<Rightarrow> center list \<times> (real \<times> real) option) \<Rightarrow>
   medicineInfoBody option \<Rightarrow> string option \<Rightarrow> response" where
  "getDonateDisposeRecommendation tz now fetchNearbyPlaces body location =
    (case body of
       None \<Rightarrow> Status400
     | Some info \<Rightarrow>
        let today = setHours0 tz now;
            isExpired = (case expiryDate info of DateAt expiry \<Rightarrow> expiry < today | _ \<Rightarrow> False);
            isUnsure = (medicineType info = Some ''not-sure'');
            isControlled = (medicineType info = Some ''controlled'')
        in Status200
         (if expiryNotAvailable info then srvUnknownExpiry
          else if isExpired then srvExpired
          else if isControlled then srvControlled
          else if isUnsure then srvNotSure
          else if condition info \<noteq> Some ''unopened'' then srvOpened
          else srvDonate (fetchNearbyPlaces location) location))"

section \<open>The retry wrapper: callWithRetry\<close>

text \<open>
  A value thrown by the remote call, as far as the wrapper reads it: \<^verbatim>\<open>error.status\<close>,
  \<^verbatim>\<open>error.message\<close> (a string when present) and \<^verbatim>\<open>error.errorDetails\<close> (an array
  when present, each element given by its \<^verbatim>\<open>reason\<close>). \<open>None\<close> is an absent field.
\<close>

record thrown =
  status :: "int option"
  message :: "string option"
  errorDetails :: "string option list option"

text \<open>\<^verbatim>\<open>s.includes(sub)\<close>: \<open>sub\<close> occurs in \<open>s\<close> as a contiguous substring.\<close>

definition startsWith :: "string \<Rightarrow> string \<Rightarrow> bool" where
  "startsWith s sub = (take (length sub) s = sub)"

fun str_includes :: "string \<Rightarrow> string \<Rightarrow> bool" where
  "str_includes [] sub = (sub = [])"
| "str_includes (c # cs) sub = (startsWith (c # cs) sub \<or> str_includes cs sub)"

definition isRateLimit :: "thrown \<Rightarrow> bool" where
  "isRateLimit error =
    (status error = Some 429 \<or>
     (case message error of None \<Rightarrow> False | Some m \<Rightarrow> str_includes m ''429'') \<or>
     (case message error of None \<Rightarrow> False | Some m \<Rightarrow> str_includes m ''Too Many Requests'') \<or>
     (case errorDetails error of None \<Rightarrow> False
      | Some ds \<Rightarrow> list_ex (\<lambda>d. d = Some ''RATE_LIMIT_EXCEEDED'') ds))"

text \<open>
  The operation \<^verbatim>\<open>fn\<close> acts on the remote world: from a state it either throws
  (\<open>Inl\<close>) or resolves (\<open>Inr\<close>), and leaves a new state. The loop keeps the source's
  variables \<^verbatim>\<open>i\<close>, \<^verbatim>\<open>delay\<close> and \<^verbatim>\<open>lastError\<close> (\<open>None\<close> is undefined); \<open>slept\<close>
  collects the argument of each \<^verbatim>\<open>setTimeout\<close> that was awaited, in order. The result is
  what the wrapper throws or returns, the state after the last attempt, and the delays.
  \<open>retries\<close> is a count (3 when the caller gives none, and no caller gives one); the
  initial delay is in milliseconds (2000 when the caller gives none).
\<close>

function callWithRetry_loop ::
  "('s \<Rightarrow> (thrown + 'a) \<times> 's) \<Rightarrow> nat \<Rightarrow> nat \<Rightarrow> int \<Rightarrow> thrown option \<Rightarrow> 's \<Rightarrow> int list \<Rightarrow>
   (thrown option + 'a) \<times> 's \<times> int list" where
  "callWithRetry_loop fn retries i delay lastError s slept =
    (if i < retries then
       (case fn s of
          (Inr v, s') \<Rightarrow> (Inr v, s', slept)
        | (Inl error, s') \<Rightarrow>
            if isRateLimit error \<and> i < retries - 1
            then callWithRetry_loop fn retries (i + 1) (delay * 2) (Some error) s' (slept @ [delay])
            else (Inl (Some error), s', slept))
     else (Inl lastError, s, slept))"
  by pat_completeness auto
termination
  by (relation "measure (\<lambda>(fn, retries, i, delay, lastError, s, slept). retries - i)") auto

definition callWithRetry ::
  "('s \<Rightarrow> (thrown + 'a) \<times> 's) \<Rightarrow> nat \<Rightarrow> int \<Rightarrow> 's \<Rightarrow> (thrown option + 'a) \<times> 's \<times> int list" where
  "callWithRetry fn retries initialDelay s =
     callWithRetry_loop fn retries 0 initialDelay None s []"

section \<open>The medicine-details cache: getMedicineDetails\<close>

text \<open>
  Strings are taken over ASCII: \<^verbatim>\<open>toLowerCase\<close> lowers the letters A to Z, and
  \<^verbatim>\<open>trim\<close> removes tab, line feed, vertical tab, form feed, carriage return and space
  from both ends. The case mappings of other letters and the Unicode white space that
  the program's \<^verbatim>\<open>trim\<close> also removes (U+00A0 among it) are outside the model.
\<close>

definition toLowerChar :: "char \<Rightarrow> char" where
  "toLowerChar c =
    (let n = (of_char c :: nat) in if 65 \<le> n \<and> n \<le> 90 then char_of (n + 32) else c)"

definition toLowerCase :: "string \<Rightarrow> string" where
  "toLowerCase s = map toLowerChar s"

definition isSpace :: "char \<Rightarrow> bool" where
  "isSpace c = ((of_char c :: nat) \<in> {9, 10, 11, 12, 13, 32})"

definition trim :: "string \<Rightarrow> string" where
  "trim s = rev (dropWhile isSpace (rev (dropWhile isSpace s)))"

text \<open>
  \<^verbatim>\<open>content.replace(/```json\n?|\n?```/g, '')\<close>: scanning from the left, at each position
  the first alternative (the fence followed by \<^verbatim>\<open>json\<close> and an optional line feed) is
  tried before the second (an optional line feed followed by the fence); a match is
  removed and the scan goes on behind it.
\<close>

definition fence :: string where
  "fence = [CHR 0x60, CHR 0x60, CHR 0x60]"

function stripFences :: "string \<Rightarrow> string" where
  "stripFences [] = []"
| "stripFences (c # cs) =
    (if startsWith (c # cs) (fence @ ''json'') then
       (let rest = drop 7 (c # cs)
        in stripFences (if startsWith rest [CHR 0x0A] then drop 1 rest else rest))
     else if startsWith (c # cs) (CHR 0x0A # fence) then stripFences (drop 4 (c # cs))
     else if startsWith (c # cs) fence then stripFences (drop 3 (c # cs))
     else c # stripFences cs)"
  by pat_completeness auto
termination
  by (relation "measure length") (auto simp: startsWith_def)

record 'j CacheEntry =
  data :: 'j
  timestamp :: int

definition CACHE_TTL :: int where
  "CACHE_TTL = 1000 * 60 * 60"

text \<open>
  The object of \<^verbatim>\<open>createFallbackMedicineDetails\<close>, its fields in the order name,
  category, description, dosage, warnings, sideEffects, uses.
\<close>

datatype fallbackDetails =
  FallbackDetails string string string string "string list" "string list" "string list"

definition createFallbackMedicineDetails :: "string \<Rightarrow> fallbackDetails" where
  "createFallbackMedicineDetails medicineName =
    FallbackDetails medicineName ''Unknown'' ''Details currently unavailable''
      ''Consult a healthcare provider'' [''Consult a doctor before use''] [] []"

text \<open>
  What \<^verbatim>\<open>getMedicineDetails\<close> resolves to: \<^verbatim>\<open>null\<close>, a value that came out of
  \<^verbatim>\<open>JSON.parse\<close> (now or when the cache entry was written), or the fallback object.
\<close>

datatype 'j details = Null | Parsed 'j | Fallback fallbackDetails

text \<open>
  The lookup, in two parts. \<open>generateContent\<close> is \<^verbatim>\<open>model.generateContent(prompt)\<close>
  for the prompt built around the given medicine name, acting on the remote world as
  the operation of \<open>callWithRetry\<close> does; what it resolves to is the outcome of
  \<^verbatim>\<open>response.text()\<close>, which throws (\<open>Inl\<close>) or gives the content (\<open>Inr\<close>).
  \<open>JSON_parse\<close> is \<^verbatim>\<open>JSON.parse\<close>, \<open>None\<close> when it throws. \<open>now\<close> is
  \<^verbatim>\<open>Date.now()\<close> at the cache check and \<open>storedAt\<close> is \<^verbatim>\<open>Date.now()\<close> when the entry
  is written. The result is the value returned, the cache and the remote state
  afterwards, and the number of times the call started the remote lookup (the
  \<^verbatim>\<open>callWithRetry\<close> of the try block): a count kept for the proofs, not a variable of
  the program.

  \<open>fetchMedicineDetails\<close> is the try block, reached on a cache miss.
\<close>

definition fetchMedicineDetails ::
  "(string \<Rightarrow> 's \<Rightarrow> (thrown + (thrown + string)) \<times> 's) \<Rightarrow> (string \<Rightarrow> 'j option) \<Rightarrow> int \<Rightarrow>
   (string \<rightharpoonup> 'j CacheEntry) \<Rightarrow> 's \<Rightarrow> string \<Rightarrow> string \<Rightarrow>
   'j details \<times> (string \<rightharpoonup> 'j CacheEntry) \<times> 's \<times> nat" where
  "fetchMedicineDetails generateContent JSON_parse storedAt medicineCache s medicineName normalizedName =
    (case callWithRetry (generateContent medicineName) 3 2000 s of
       (Inl error, s', slept) \<Rightarrow>
         (Fallback (createFallbackMedicineDetails medicineName), medicineCache, s', 1)
     | (Inr (Inl error), s', slept) \<Rightarrow>
         (Fallback (createFallbackMedicineDetails medicineName), medicineCache, s', 1)
     | (Inr (Inr content), s', slept) \<Rightarrow>
         if content \<noteq> [] then
           (let content' = trim (stripFences content) in
            if content' = ''null'' then (Null, medicineCache, s', 1)
            else
              (case JSON_parse content' of
                 None \<Rightarrow>
                   (Fallback (createFallbackMedicineDetails medicineName), medicineCache, s', 1)
               | Some parsed \<Rightarrow>
                   (Parsed parsed,
                    medicineCache(normalizedName \<mapsto> \<lparr> data = parsed, timestamp = storedAt \<rparr>),
                    s', 1)))
         else (Fallback (createFallbackMedicineDetails medicineName), medicineCache, s', 1))"

definition getMedicineDetails ::
  "(string \<Rightarrow> 's \<Rightarrow> (thrown + (thrown + string)) \<times> 's) \<Rightarrow> (string \<Rightarrow> 'j option) \<Rightarrow> int \<Rightarrow> int \<Rightarrow>
   (string \<rightharpoonup> 'j CacheEntry) \<Rightarrow> 's \<Rightarrow> string \<Rightarrow>
   'j details \<times> (string \<rightharpoonup> 'j CacheEntry) \<times> 's \<times> nat" where
  "getMedicineDetails generateContent JSON_parse now storedAt medicineCache s medicineName =
    (let normalizedName = trim (toLowerCase medicineName) in
     case medicineCache normalizedName of
       Some cached \<Rightarrow>
         if now - timestamp cached < CACHE_TTL then (Parsed (data cached), medicineCache, s, 0)
         else fetchMedicineDetails generateContent JSON_parse storedAt medicineCache s
                medicineName normalizedName
     | None \<Rightarrow>
         fetchMedicineDetails generateContent JSON_parse storedAt medicineCache s
           medicineName normalizedName)"

section \<open>The distance ranking of the DonateDispose page\<close>

text \<open>
  The program computes with IEEE doubles. They are taken here as the real numbers they
  stand for, and \<^verbatim>\<open>Math.sin\<close>, \<^verbatim>\<open>Math.cos\<close>, \<^verbatim>\<open>Math.sqrt\<close>, \<^verbatim>\<open>Math.atan2\<close> and
  \<^verbatim>\<open>Math.PI\<close> as the real functions and the number they approximate: the rounding
  errors of the double arithmetic and NaN are not modelled. What the program rounds
  itself, with \<^verbatim>\<open>toFixed(2)\<close>, is modelled.
\<close>

definition atan2 :: "real \<Rightarrow> real \<Rightarrow> real" where
  "atan2 y x =
    (if 0 < x then arctan (y / x)
     else if x < 0 then (if 0 \<le> y then arctan (y / x) + pi else arctan (y / x) - pi)
     else if 0 < y then pi / 2
     else if y < 0 then - (pi / 2)
     else 0)"

text \<open>
  \<open>haversineKm\<close> is the value \<^verbatim>\<open>R * c\<close> of \<^verbatim>\<open>calculateDistance\<close>, in kilometres;
  the arguments are in degrees.
\<close>

definition haversineKm :: "real \<Rightarrow> real \<Rightarrow> real \<Rightarrow> real \<Rightarrow> real" where
  "haversineKm lat1 lon1 lat2 lon2 =
    (let R = 6371;
         dLat = (lat2 - lat1) * pi / 180;
         dLon = (lon2 - lon1) * pi / 180;
         a = sin (dLat / 2) * sin (dLat / 2) +
             cos (lat1 * pi / 180) * cos (lat2 * pi / 180) *
             sin (dLon / 2) * sin (dLon / 2);
         c = 2 * atan2 (sqrt a) (sqrt (1 - a))
     in R * c)"

text \<open>
  \<^verbatim>\<open>x.toFixed(2)\<close> read back by \<^verbatim>\<open>parseFloat\<close>: the multiple of one hundredth nearest
  to \<open>x\<close>, the larger one of two that are equally near; a negative number is rounded as
  its absolute value and negated.
\<close>

definition toFixed2 :: "real \<Rightarrow> real" where
  "toFixed2 x =
    (if x < 0 then - (of_int (round (- x * 100)) / 100) else of_int (round (x * 100)) / 100)"

text \<open>
  \<^verbatim>\<open>calculateDistance\<close> returns the string of \<^verbatim>\<open>toFixed(2)\<close> and every caller applies
  \<^verbatim>\<open>parseFloat\<close> to it; the model gives the number the caller gets.
\<close>

definition calculateDistance :: "real \<Rightarrow> real \<Rightarrow> real \<Rightarrow> real \<Rightarrow> real" where
  "calculateDistance lat1 lon1 lat2 lon2 = toFixed2 (haversineKm lat1 lon1 lat2 lon2)"

text \<open>The \<^verbatim>\<open>coordinates\<close> of a centre: \<^verbatim>\<open>lat\<close> first, \<^verbatim>\<open>lng\<close> second.\<close>

fun coordinates :: "center \<Rightarrow> real \<times> real" where
  "coordinates (Center n t a p xy acc d h r v) = xy"

text \<open>
  \<^verbatim>\<open>sortedCenters\<close> of \<^verbatim>\<open>getUserLocation\<close>: the centres of the response sorted with
  the comparator \<^verbatim>\<open>distA - distB\<close> and then filtered. \<^verbatim>\<open>Array.prototype.sort\<close> is
  stable, and the comparator orders by the number \<^verbatim>\<open>calculateDistance\<close> gives, so the
  sort is the stable sort by that key, \<open>sort_key\<close>. \<^verbatim>\<open>finalCenters\<close> of
  \<^verbatim>\<open>findDonationCenters\<close> is the same expression on a copy of the list around the
  geocoded centre \<^verbatim>\<open>{lat, lon}\<close>, and the list as it came when the response has no
  such centre.
\<close>

definition sortedCenters :: "real \<Rightarrow> real \<Rightarrow> center list \<Rightarrow> center list" where
  "sortedCenters latitude longitude centers =
    filter (\<lambda>c. calculateDistance latitude longitude (fst (coordinates c)) (snd (coordinates c)) \<le> 15)
      (sort_key (\<lambda>c. calculateDistance latitude longitude (fst (coordinates c)) (snd (coordinates c)))
         centers)"

definition finalCenters :: "(real \<times> real) option \<Rightarrow> center list \<Rightarrow> center list" where
  "finalCenters geocoded centers =
    (case geocoded of
       None \<Rightarrow> centers
     | Some (lat, lon) \<Rightarrow>
         filter (\<lambda>c. calculateDistance lat lon (fst (coordinates c)) (snd (coordinates c)) \<le> 15)
           (sort_key (\<lambda>c. calculateDistance lat lon (fst (coordinates c)) (snd (coordinates c)))
              centers))"

section \<open>Notions used to state the properties of the classifiers\<close>

text \<open>
  An expiry field is expired at the instant \<open>t\<close> when it is a valid date strictly
  before \<open>t\<close>. The server takes \<open>t\<close> to be the start of the current day, the client the
  current instant.
\<close>

definition expiredAt :: "int \<Rightarrow> expiry_field \<Rightarrow> bool" where
  "expiredAt t d = (case d of DateAt expiry \<Rightarrow> expiry < t | _ \<Rightarrow> False)"

text \<open>
  The page's date input gives the expiry as a string of the form YYYY-MM-DD. For such a
  date-only string \<^verbatim>\<open>new Date\<close> gives the start of that day in UTC. \<open>dateOnly day\<close>
  is the field for the day with the number \<open>day\<close>, counted from 1970-01-01, and
  \<open>localDay tz t\<close> is the number of the local calendar day of the instant \<open>t\<close>.
\<close>

definition dateOnly :: "int \<Rightarrow> expiry_field" where
  "dateOnly day = DateAt (day * msPerDay)"

definition localDay :: "int \<Rightarrow> int \<Rightarrow> int" where
  "localDay tz t = (t + tz) div msPerDay"

text \<open>
  The decision table as the specification words it (section 4.1): six rules, the first
  that matches wins. The arguments are: the expiry is marked unknown, the medicine is
  expired, the medicine type, the condition.
\<close>

datatype rule = UnknownExpiry | Expired | ControlledSubstance | UnknownType | NotUnopened | Eligible

definition matched_rule :: "bool \<Rightarrow> bool \<Rightarrow> string option \<Rightarrow> string option \<Rightarrow> rule" where
  "matched_rule expiryUnknown expired mtype cond =
    (if expiryUnknown then UnknownExpiry
     else if expired then Expired
     else if mtype = Some ''controlled'' then ControlledSubstance
     else if mtype = Some ''not-sure'' then UnknownType
     else if cond \<noteq> Some ''unopened'' then NotUnopened
     else Eligible)"

text \<open>Inputs for the examples. The instants are 2023-11-14T22:13:20Z,
  2025-11-01T00:00:00Z and 2025-11-02T00:00:00Z.\<close>

definition exampleExpired :: medicineInfoBody where
  "exampleExpired = \<lparr> name = Some ''Morphine'', expiryDate = DateAt 1700000000000,
     condition = Some ''opened'', medicineType = Some ''controlled'', expiryNotAvailable = False \<rparr>"

definition exampleUnknownExpiry :: medicineInfoBody where
  "exampleUnknownExpiry = \<lparr> name = Some ''Cough syrup'', expiryDate = DateAt 1700000000000,
     condition = Some ''opened'', medicineType = Some ''controlled'', expiryNotAvailable = True \<rparr>"

definition exampleSameDay :: medicineInfoBody where
  "exampleSameDay = \<lparr> name = Some ''Paracetamol'', expiryDate = DateAt 1761955200000,
     condition = Some ''unopened'', medicineType = Some ''otc'', expiryNotAvailable = False \<rparr>"

definition exampleTomorrow :: medicineInfoBody where
  "exampleTomorrow = \<lparr> name = Some ''Paracetamol'', expiryDate = DateAt 1762041600000,
     condition = Some ''unopened'', medicineType = Some ''otc'', expiryNotAvailable = False \<rparr>"

definition noPlaces :: "string option \<Rightarrow> center list \<times> (real \<times> real) option" where
  "noPlaces location = ([], None)"

section \<open>Notions used to state the properties of the retry wrapper\<close>

text \<open>
  The state of the remote world after \<open>k\<close> calls of the operation, and the outcome of
  call number \<open>k\<close> (counted from 0), when the calls are made one after the other from
  the state \<open>s\<close>.
\<close>

fun stateAfter :: "('s \<Rightarrow> (thrown + 'a) \<times> 's) \<Rightarrow> 's \<Rightarrow> nat \<Rightarrow> 's" where
  "stateAfter fn s 0 = s"
| "stateAfter fn s (Suc k) = snd (fn (stateAfter fn s k))"

definition attempt :: "('s \<Rightarrow> (thrown + 'a) \<times> 's) \<Rightarrow> 's \<Rightarrow> nat \<Rightarrow> thrown + 'a" where
  "attempt fn s k = fst (fn (stateAfter fn s k))"

text \<open>Call number \<open>k\<close> throws an error that carries a rate-limit marker.\<close>

definition rateLimited :: "('s \<Rightarrow> (thrown + 'a) \<times> 's) \<Rightarrow> 's \<Rightarrow> nat \<Rightarrow> bool" where
  "rateLimited fn s k = (case attempt fn s k of Inl e \<Rightarrow> isRateLimit e | Inr v \<Rightarrow> False)"

text \<open>The first \<open>k\<close> delays of the exponential backoff that starts at \<open>d\<close>.\<close>

definition backoff :: "int \<Rightarrow> nat \<Rightarrow> int list" where
  "backoff d k = map (\<lambda>j. d * 2 ^ j) [0..<k]"

text \<open>Errors and operations for the examples. The state of an operation counts its calls.\<close>

definition err429 :: thrown where
  "err429 = \<lparr> status = Some 429, message = None, errorDetails = None \<rparr>"

definition errTooMany :: thrown where
  "errTooMany = \<lparr> status = None, message = Some ''[429 Too Many Requests] Resource has been exhausted'',
     errorDetails = None \<rparr>"

definition errQuota :: thrown where
  "errQuota = \<lparr> status = None, message = Some ''quota'',
     errorDetails = Some [None, Some ''RATE_LIMIT_EXCEEDED''] \<rparr>"

definition err500 :: thrown where
  "err500 = \<lparr> status = Some 500, message = Some ''Internal error'', errorDetails = None \<rparr>"

definition failTwice :: "nat \<Rightarrow> (thrown + string) \<times> nat" where
  "failTwice n = (if n = 0 then Inl err429 else if n = 1 then Inl errTooMany else Inr ''ok'', n + 1)"

definition failOnce500 :: "nat \<Rightarrow> (thrown + string) \<times> nat" where
  "failOnce500 n = (if n = 0 then Inl errQuota else if n = 1 then Inl err500 else Inr ''ok'', n + 1)"

definition alwaysLimited :: "nat \<Rightarrow> (thrown + string) \<times> nat" where
  "alwaysLimited n = (Inl (if n = 2 then errQuota else err429), n + 1)"

section \<open>Notions used to state the properties of the cache\<close>

text \<open>Two names differ only in letter case and in the white space around them.\<close>

definition differOnlyInCaseAndOuterSpace :: "string \<Rightarrow> string \<Rightarrow> bool" where
  "differOnlyInCaseAndOuterSpace a b = (toLowerCase (trim a) = toLowerCase (trim b))"

text \<open>The cache holds an entry for the name that is younger than the time to live.\<close>

definition liveEntry :: "(string \<rightharpoonup> 'j CacheEntry) \<Rightarrow> int \<Rightarrow> string \<Rightarrow> bool" where
  "liveEntry medicineCache now medicineName =
    (case medicineCache (trim (toLowerCase medicineName)) of
       None \<Rightarrow> False
     | Some cached \<Rightarrow> now - timestamp cached < CACHE_TTL)"



text \<open>
  Remote services and a parser for the examples. The state of a service counts the calls
  of \<open>generateContent\<close>. The answer of \<open>answersJson\<close> is an empty JSON object inside a
  fenced block. The parser accepts the texts that start with an opening brace and gives
  the text itself as the parsed value.
\<close>

definition alwaysDown :: "string \<Rightarrow> nat \<Rightarrow> (thrown + (thrown + string)) \<times> nat" where
  "alwaysDown medicineName n = (Inl err500, n + 1)"

definition fencedJson :: string where
  "fencedJson = fence @ ''json'' @ [CHR 0x0A] @ ''{}'' @ [CHR 0x0A] @ fence"

definition answersJson :: "string \<Rightarrow> nat \<Rightarrow> (thrown + (thrown + string)) \<times> nat" where
  "answersJson medicineName n = (Inr (Inr fencedJson), n + 1)"

definition parseBraces :: "string \<Rightarrow> string option" where
  "parseBraces content = (if startsWith content ''{'' then Some content else None)"

section \<open>Notions used to state the properties of the distance ranking\<close>

text \<open>
  The distance of a centre from the origin as the formula gives it, and as
  \<^verbatim>\<open>calculateDistance\<close> hands it to the sort and the filter, rounded to two decimals.
\<close>

definition rawDistance :: "real \<Rightarrow> real \<Rightarrow> center \<Rightarrow> real" where
  "rawDistance latitude longitude c =
     haversineKm latitude longitude (fst (coordinates c)) (snd (coordinates c))"

definition shownDistance :: "real \<Rightarrow> real \<Rightarrow> center \<Rightarrow> real" where
  "shownDistance latitude longitude c =
     calculateDistance latitude longitude (fst (coordinates c)) (snd (coordinates c))"

text \<open>
  Centres for the examples, as the server builds them from the map data, all on the
  meridian of the origin (0, 0): about 15.002 km, 5.0004 km, 5.0027 km and 111 km
  north of it.
\<close>

definition placeAt :: "string \<Rightarrow> real \<Rightarrow> real \<Rightarrow> center" where
  "placeAt n lat lng =
     Center n ''Pharmacy'' ''Address on map'' ''Contact to confirm'' (lat, lng)
       [''Unopened'', ''Sealed'', ''Unexpired''] ''Live'' ''Contact facility'' 4.5 True"

definition justOutside :: center where
  "justOutside = placeAt ''Just outside'' 0.13492 0"

definition nearer :: center where
  "nearer = placeAt ''Nearer'' 0.04497 0"

definition farther :: center where
  "farther = placeAt ''Farther'' 0.04499 0"

definition farAway :: center where
  "farAway = placeAt ''Far away'' 1 0"

section \<open>Properties of the classifiers\<close>

lemma setHours0_le: "setHours0 tz t \<le> t"
  by (simp add: setHours0_def msPerDay_def)

lemma srv_kinds:
  "srv_recommendation srvUnknownExpiry = ''Consult''"
  "srv_recommendation srvExpired = ''Dispose''"
  "srv_recommendation srvControlled = ''Dispose''"
  "srv_recommendation srvNotSure = ''Consult''"
  "srv_recommendation srvOpened = ''Dispose''"
  "srv_recommendation (srvDonate fetched location) = ''Donate''"
  by (simp_all add: srvUnknownExpiry_def srvExpired_def srvControlled_def srvNotSure_def
        srvOpened_def srvDonate_def Let_def split: prod.split)

lemma cli_kinds:
  "recommendation unknownExpiryResult = Consult"
  "recommendation expiredResult = Dispose"
  "recommendation controlledResult = Dispose"
  "recommendation notSureResult = Consult"
  "recommendation openedResult = Dispose"
  "recommendation donateResult = Donate"
  by (simp_all add: unknownExpiryResult_def expiredResult_def controlledResult_def
        notSureResult_def openedResult_def donateResult_def)

text \<open>Both classifiers as functions of the matched rule.\<close>

lemma srv_by_rule:
  "getDonateDisposeRecommendation tz now fetchNearbyPlaces (Some info) location =
   Status200
    (case matched_rule (expiryNotAvailable info) (expiredAt (setHours0 tz now) (expiryDate info))
            (medicineType info) (condition info) of
       UnknownExpiry \<Rightarrow> srvUnknownExpiry
     | Expired \<Rightarrow> srvExpired
     | ControlledSubstance \<Rightarrow> srvControlled
     | UnknownType \<Rightarrow> srvNotSure
     | NotUnopened \<Rightarrow> srvOpened
     | Eligible \<Rightarrow> srvDonate (fetchNearbyPlaces location) location)"
  by (simp add: getDonateDisposeRecommendation_def matched_rule_def expiredAt_def Let_def)

lemma cli_by_rule:
  "getRecommendation now info notAvailable =
   (if falsy (name info) \<or> (expiryDate info = NoDate \<and> \<not> notAvailable) then None
    else Some
     (case matched_rule notAvailable (expiredAt now (expiryDate info))
             (medicineType info) (condition info) of
        UnknownExpiry \<Rightarrow> unknownExpiryResult
      | Expired \<Rightarrow> expiredResult
      | ControlledSubstance \<Rightarrow> controlledResult
      | UnknownType \<Rightarrow> notSureResult
      | NotUnopened \<Rightarrow> openedResult
      | Eligible \<Rightarrow> donateResult))"
  by (simp add: getRecommendation_def matched_rule_def expiredAt_def Let_def)

lemma matched_rule_Eligible:
  "matched_rule a b m c = Eligible \<longleftrightarrow>
     \<not> a \<and> \<not> b \<and> m \<noteq> Some ''controlled'' \<and> m \<noteq> Some ''not-sure'' \<and> c = Some ''unopened''"
  by (simp add: matched_rule_def)

text \<open>
  C1. An input whose expiry date is known and lies strictly before the start of the
  current day is answered with the disposal of an expired medicine, by the server and
  (once the form guard has passed) by the client, whatever its type and condition.
\<close>

theorem expired_is_disposed:
  assumes "expiryDate info = DateAt expiry"
    and "expiry < setHours0 tz now"
    and "\<not> expiryNotAvailable info"
  shows "getDonateDisposeRecommendation tz now fetchNearbyPlaces (Some info) location = Status200 srvExpired
       \<and> srv_recommendation srvExpired = ''Dispose''
       \<and> (\<not> falsy (name info) \<longrightarrow>
            getRecommendation now info (expiryNotAvailable info) = Some expiredResult
            \<and> recommendation expiredResult = Dispose)"
proof -
  have "expiry < now"
    using assms(2) setHours0_le [of tz now] by linarith
  then show ?thesis
    using assms
    by (simp add: getDonateDisposeRecommendation_def getRecommendation_def srv_kinds cli_kinds)
qed

theorem expired_is_disposed_witness:
  "expiryDate exampleExpired = DateAt 1700000000000
   \<and> 1700000000000 < setHours0 19800000 1762000000000
   \<and> \<not> expiryNotAvailable exampleExpired
   \<and> \<not> falsy (name exampleExpired)
   \<and> medicineType exampleExpired = Some ''controlled''
   \<and> condition exampleExpired = Some ''opened''
   \<and> getDonateDisposeRecommendation 19800000 1762000000000 noPlaces (Some exampleExpired) None
       = Status200 srvExpired
   \<and> getRecommendation 1762000000000 exampleExpired False = Some expiredResult"
proof -
  have a: "expiryDate exampleExpired = DateAt 1700000000000"
    and c: "\<not> expiryNotAvailable exampleExpired"
    and d: "\<not> falsy (name exampleExpired)"
    and e: "medicineType exampleExpired = Some ''controlled''"
    and f: "condition exampleExpired = Some ''opened''"
    by (simp_all add: exampleExpired_def falsy_def)
  have b: "1700000000000 < setHours0 19800000 1762000000000"
    by (simp add: setHours0_def msPerDay_def)
  from expired_is_disposed [OF a b c, of noPlaces None] a b c d e f
  show ?thesis by simp
qed

text \<open>
  C2. An input whose expiry date is marked not available is answered with the
  consultation for an unknown expiry, by the server and (once the form guard has passed)
  by the client, whatever its expiry date, type and condition.
\<close>

theorem unknown_expiry_is_consult:
  assumes "expiryNotAvailable info"
  shows "getDonateDisposeRecommendation tz now fetchNearbyPlaces (Some info) location
           = Status200 srvUnknownExpiry
       \<and> srv_recommendation srvUnknownExpiry = ''Consult''
       \<and> (\<not> falsy (name info) \<longrightarrow>
            getRecommendation now info (expiryNotAvailable info) = Some unknownExpiryResult
            \<and> recommendation unknownExpiryResult = Consult)"
  using assms
  by (simp add: getDonateDisposeRecommendation_def getRecommendation_def srv_kinds cli_kinds)

theorem unknown_expiry_is_consult_witness:
  "expiryNotAvailable exampleUnknownExpiry
   \<and> \<not> falsy (name exampleUnknownExpiry)
   \<and> getDonateDisposeRecommendation 0 1762000000000 noPlaces (Some exampleUnknownExpiry) None
       = Status200 srvUnknownExpiry
   \<and> getRecommendation 1762000000000 exampleUnknownExpiry True = Some unknownExpiryResult"
proof -
  have a: "expiryNotAvailable exampleUnknownExpiry"
    and b: "\<not> falsy (name exampleUnknownExpiry)"
    by (simp_all add: exampleUnknownExpiry_def falsy_def)
  from unknown_expiry_is_consult [OF a, of 0 1762000000000 noPlaces None] a b
  show ?thesis by simp
qed

text \<open>
  Donate is answered only for an input that is eligible: the expiry is not marked
  unavailable, the expiry date is not before the start of the current day, the type is
  neither controlled nor not-sure, and the medicine is unopened.
\<close>

lemma expiredAt_mono: "expiredAt t d \<Longrightarrow> t \<le> t' \<Longrightarrow> expiredAt t' d"
  by (cases d) (simp_all add: expiredAt_def)

lemma server_donate_only_if_eligible:
  assumes "getDonateDisposeRecommendation tz now fetchNearbyPlaces (Some info) location = Status200 r"
    and "srv_recommendation r = ''Donate''"
  shows "\<not> expiryNotAvailable info \<and> \<not> expiredAt (setHours0 tz now) (expiryDate info)
         \<and> medicineType info \<noteq> Some ''controlled'' \<and> medicineType info \<noteq> Some ''not-sure''
         \<and> condition info = Some ''unopened''"
proof -
  let ?R = "matched_rule (expiryNotAvailable info) (expiredAt (setHours0 tz now) (expiryDate info))
               (medicineType info) (condition info)"
  from assms have "?R = Eligible"
    unfolding srv_by_rule by (cases ?R) (auto simp: srv_kinds)
  then show ?thesis
    by (simp add: matched_rule_Eligible)
qed

lemma client_donate_only_if_eligible:
  assumes "getRecommendation now info notAvailable = Some r"
    and "recommendation r = Donate"
  shows "\<not> notAvailable \<and> \<not> expiredAt (setHours0 tz now) (expiryDate info)
         \<and> medicineType info \<noteq> Some ''controlled'' \<and> medicineType info \<noteq> Some ''not-sure''
         \<and> condition info = Some ''unopened''"
proof -
  let ?R = "matched_rule notAvailable (expiredAt now (expiryDate info))
               (medicineType info) (condition info)"
  from assms have "?R = Eligible"
    unfolding cli_by_rule by (cases ?R) (auto simp: cli_kinds split: if_split_asm)
  then have e: "\<not> notAvailable \<and> \<not> expiredAt now (expiryDate info)
         \<and> medicineType info \<noteq> Some ''controlled'' \<and> medicineType info \<noteq> Some ''not-sure''
         \<and> condition info = Some ''unopened''"
    by (simp add: matched_rule_Eligible)
  then have "\<not> expiredAt (setHours0 tz now) (expiryDate info)"
    using expiredAt_mono [OF _ setHours0_le, of tz now "expiryDate info"] by blast
  with e show ?thesis by blast
qed

text \<open>
  The answer is fixed by the rule that each classifier matches: two inputs with the same
  rule get the same recommendation, reasoning, instructions, warnings and guidelines
  from the server, and the same result object from the client.
\<close>

lemma answer_fixed_by_rule:
  "(getDonateDisposeRecommendation tz now fetchNearbyPlaces (Some info) location = Status200 r
      \<and> getDonateDisposeRecommendation tz' now' fetchNearbyPlaces' (Some info') location' = Status200 r'
      \<and> matched_rule (expiryNotAvailable info) (expiredAt (setHours0 tz now) (expiryDate info))
           (medicineType info) (condition info)
        = matched_rule (expiryNotAvailable info') (expiredAt (setHours0 tz' now') (expiryDate info'))
           (medicineType info') (condition info')
     \<longrightarrow> srv_recommendation r = srv_recommendation r' \<and> srv_reasoning r = srv_reasoning r'
         \<and> srv_instructions r = srv_instructions r' \<and> srv_warnings r = srv_warnings r'
         \<and> srv_guidelines r = srv_guidelines r')
   \<and> (getRecommendation now info notAvailable = Some c
      \<and> getRecommendation now' info' notAvailable' = Some c'
      \<and> matched_rule notAvailable (expiredAt now (expiryDate info))
           (medicineType info) (condition info)
        = matched_rule notAvailable' (expiredAt now' (expiryDate info'))
           (medicineType info') (condition info')
     \<longrightarrow> c = c')"
proof (intro conjI)
  show "getDonateDisposeRecommendation tz now fetchNearbyPlaces (Some info) location = Status200 r
      \<and> getDonateDisposeRecommendation tz' now' fetchNearbyPlaces' (Some info') location' = Status200 r'
      \<and> matched_rule (expiryNotAvailable info) (expiredAt (setHours0 tz now) (expiryDate info))
           (medicineType info) (condition info)
        = matched_rule (expiryNotAvailable info') (expiredAt (setHours0 tz' now') (expiryDate info'))
           (medicineType info') (condition info')
     \<longrightarrow> srv_recommendation r = srv_recommendation r' \<and> srv_reasoning r = srv_reasoning r'
         \<and> srv_instructions r = srv_instructions r' \<and> srv_warnings r = srv_warnings r'
         \<and> srv_guidelines r = srv_guidelines r'"
    unfolding srv_by_rule
    by (cases "matched_rule (expiryNotAvailable info') (expiredAt (setHours0 tz' now') (expiryDate info'))
               (medicineType info') (condition info')")
       (auto simp: srvDonate_def Let_def split: prod.split)
  show "getRecommendation now info notAvailable = Some c
      \<and> getRecommendation now' info' notAvailable' = Some c'
      \<and> matched_rule notAvailable (expiredAt now (expiryDate info))
           (medicineType info) (condition info)
        = matched_rule notAvailable' (expiredAt now' (expiryDate info'))
           (medicineType info') (condition info')
     \<longrightarrow> c = c'"
    unfolding cli_by_rule by (auto split: if_split_asm)
qed

text \<open>
  C3. At 2025-11-01T12:26:40Z a medicine with the expiry date 2025-11-01, of type otc
  and unopened, has every property that makes it eligible: the expiry is not marked
  unavailable and its day is the current one, at UTC and four hours behind UTC alike.
  The client (at UTC) does not answer Donate but the disposal of an expired medicine,
  and so does the server when its clock is four hours behind UTC.
\<close>

theorem eligible_on_expiry_day_is_disposed:
  "expiryDate exampleSameDay = dateOnly 20393
   \<and> localDay 0 1762000000000 = 20393
   \<and> localDay (- 14400000) 1762000000000 = 20393
   \<and> expiryNotAvailable exampleSameDay = False
   \<and> medicineType exampleSameDay = Some ''otc''
   \<and> condition exampleSameDay = Some ''unopened''
   \<and> name exampleSameDay = Some ''Paracetamol''
   \<and> getRecommendation 1762000000000 exampleSameDay False = Some expiredResult
   \<and> recommendation expiredResult = Dispose
   \<and> getDonateDisposeRecommendation (- 14400000) 1762000000000 noPlaces (Some exampleSameDay) None
       = Status200 srvExpired
   \<and> srv_recommendation srvExpired = ''Dispose''"
  by (simp add: getDonateDisposeRecommendation_def getRecommendation_def exampleSameDay_def
        falsy_def setHours0_def localDay_def dateOnly_def msPerDay_def cli_kinds srv_kinds)

text \<open>
  C9. Neither classifier ever answers keep: the server's recommendation is one of
  Consult, Dispose and Donate, and so is the client's.
\<close>

theorem never_keep:
  "(\<forall>r. getDonateDisposeRecommendation tz now fetchNearbyPlaces body location = Status200 r \<longrightarrow>
        srv_recommendation r \<in> {''Consult'', ''Dispose'', ''Donate''})
   \<and> (\<forall>r. getRecommendation now' info notAvailable = Some r \<longrightarrow>
        recommendation r \<in> {Consult, Dispose, Donate} \<and> recommendation r \<noteq> Keep)"
proof (intro conjI allI impI)
  fix r
  assume a: "getDonateDisposeRecommendation tz now fetchNearbyPlaces body location = Status200 r"
  then obtain i where b: "body = Some i"
    by (cases body) (simp_all add: getDonateDisposeRecommendation_def)
  show "srv_recommendation r \<in> {''Consult'', ''Dispose'', ''Donate''}"
    using a unfolding b srv_by_rule
    by (cases "matched_rule (expiryNotAvailable i) (expiredAt (setHours0 tz now) (expiryDate i))
            (medicineType i) (condition i)") (auto simp: srv_kinds)
next
  fix r
  assume a: "getRecommendation now' info notAvailable = Some r"
  then have "recommendation r \<in> {Consult, Dispose, Donate}"
    unfolding cli_by_rule
    by (cases "matched_rule notAvailable (expiredAt now' (expiryDate info))
             (medicineType info) (condition info)") (auto simp: cli_kinds split: if_split_asm)
  then show "recommendation r \<in> {Consult, Dispose, Donate}" "recommendation r \<noteq> Keep"
    by auto
qed

theorem never_keep_witness:
  "(\<exists>r. getDonateDisposeRecommendation 0 1762000000000 noPlaces (Some exampleTomorrow) None = Status200 r
        \<and> srv_recommendation r \<in> {''Consult'', ''Dispose'', ''Donate''})
   \<and> (\<exists>r. getRecommendation 1762000000000 exampleTomorrow False = Some r
        \<and> recommendation r \<in> {Consult, Dispose, Donate} \<and> recommendation r \<noteq> Keep)"
proof -
  obtain r where a: "getDonateDisposeRecommendation 0 1762000000000 noPlaces (Some exampleTomorrow) None = Status200 r"
    by (simp add: getDonateDisposeRecommendation_def)
  obtain r' where b: "getRecommendation 1762000000000 exampleTomorrow False = Some r'"
    by (simp add: getRecommendation_def exampleTomorrow_def falsy_def)
  from never_keep [of 0 1762000000000 noPlaces "Some exampleTomorrow" None 1762000000000 exampleTomorrow False] a b
  show ?thesis by blast
qed

text \<open>
  The server compares with the start of the current local day: a medicine that is
  otherwise eligible and whose expiry instant is at or after it is answered with Donate.
\<close>

lemma server_same_day_donates:
  assumes "expiryDate info = DateAt expiry" and "setHours0 tz now \<le> expiry"
    and "\<not> expiryNotAvailable info"
    and "medicineType info \<noteq> Some ''controlled''" and "medicineType info \<noteq> Some ''not-sure''"
    and "condition info = Some ''unopened''"
  shows "getDonateDisposeRecommendation tz now fetchNearbyPlaces (Some info) location
         = Status200 (srvDonate (fetchNearbyPlaces location) location)"
  using assms by (simp add: getDonateDisposeRecommendation_def)

text \<open>
  C4. At 2025-11-01T12:26:40Z a medicine that expires on 2025-11-01 (the start of that
  day) is not expired for the server, which answers Donate, and is expired for the
  client, which answers with the disposal of an expired medicine.
\<close>

theorem same_day_expiry_client_disposes:
  "expiryDate exampleSameDay = DateAt (setHours0 0 1762000000000)
   \<and> getDonateDisposeRecommendation 0 1762000000000 noPlaces (Some exampleSameDay) None
       = Status200 (srvDonate (noPlaces None) None)
   \<and> getRecommendation 1762000000000 exampleSameDay (expiryNotAvailable exampleSameDay)
       = Some expiredResult
   \<and> recommendation expiredResult = Dispose"
  by (simp add: getDonateDisposeRecommendation_def getRecommendation_def exampleSameDay_def
        falsy_def setHours0_def msPerDay_def cli_kinds)

section \<open>Properties of the retry wrapper\<close>

declare callWithRetry_loop.simps [simp del]

lemma fn_stateAfter: "fn (stateAfter fn s k) = (attempt fn s k, stateAfter fn s (Suc k))"
  by (simp add: attempt_def)

lemma backoff_Suc: "backoff d (Suc k) = backoff d k @ [d * 2 ^ k]"
  by (simp add: backoff_def)

lemma loop_skip:
  assumes "\<forall>j<k. rateLimited fn s j" and "k < retries"
  shows "\<exists>lastError. callWithRetry_loop fn retries 0 d None s [] =
           callWithRetry_loop fn retries k (d * 2 ^ k) lastError (stateAfter fn s k) (backoff d k)"
  using assms
proof (induction k)
  case 0
  show ?case by (auto simp: backoff_def)
next
  case (Suc k)
  then obtain lastError where ih: "callWithRetry_loop fn retries 0 d None s [] =
       callWithRetry_loop fn retries k (d * 2 ^ k) lastError (stateAfter fn s k) (backoff d k)"
    by auto
  from Suc.prems have "rateLimited fn s k" by simp
  then obtain e where e: "attempt fn s k = Inl e" "isRateLimit e"
    by (auto simp: rateLimited_def split: sum.splits)
  have "callWithRetry_loop fn retries k (d * 2 ^ k) lastError (stateAfter fn s k) (backoff d k) =
        callWithRetry_loop fn retries (Suc k) (d * 2 ^ Suc k) (Some e) (stateAfter fn s (Suc k)) (backoff d (Suc k))"
    using Suc.prems(2) e
    by (subst callWithRetry_loop.simps)
       (auto simp add: fn_stateAfter backoff_Suc mult_ac simp del: stateAfter.simps)
  with ih show ?case by auto
qed

lemma last_attempt:
  assumes "\<forall>j<k. rateLimited fn s j" and "k < retries"
    and "Suc k = retries \<or> \<not> rateLimited fn s k"
  shows "callWithRetry fn retries d s =
           (map_sum Some id (attempt fn s k), stateAfter fn s (Suc k), backoff d k)"
proof -
  from loop_skip [OF assms(1,2)] obtain lastError where
    "callWithRetry fn retries d s =
       callWithRetry_loop fn retries k (d * 2 ^ k) lastError (stateAfter fn s k) (backoff d k)"
    unfolding callWithRetry_def by blast
  also have "\<dots> = (map_sum Some id (attempt fn s k), stateAfter fn s (Suc k), backoff d k)"
    using assms(2,3)
    by (subst callWithRetry_loop.simps)
       (auto simp: fn_stateAfter rateLimited_def simp del: stateAfter.simps split: sum.splits)
  finally show ?thesis .
qed

text \<open>The four markers of a rate-limited failure.\<close>

lemma isRateLimit_markers:
  "status e = Some 429 \<Longrightarrow> isRateLimit e"
  "message e = Some m \<Longrightarrow> str_includes m ''429'' \<Longrightarrow> isRateLimit e"
  "message e = Some m \<Longrightarrow> str_includes m ''Too Many Requests'' \<Longrightarrow> isRateLimit e"
  "errorDetails e = Some ds \<Longrightarrow> Some ''RATE_LIMIT_EXCEEDED'' \<in> set ds \<Longrightarrow> isRateLimit e"
  by (auto simp: isRateLimit_def list_ex_iff)

lemma example_errors:
  "isRateLimit err429" "isRateLimit errTooMany" "isRateLimit errQuota" "\<not> isRateLimit err500"
  by (simp_all add: isRateLimit_def err429_def errTooMany_def errQuota_def err500_def startsWith_def)

text \<open>
  C5. With three attempts allowed, an operation that throws rate-limit errors on its
  first two calls and resolves on the third makes the wrapper return that value after
  sleeping the initial delay and then twice the initial delay, three times the initial
  delay in all.
\<close>

theorem retry_twice_then_success:
  assumes "fn s0 = (Inl e1, s1)" and "isRateLimit e1"
    and "fn s1 = (Inl e2, s2)" and "isRateLimit e2"
    and "fn s2 = (Inr v, s3)"
  shows "callWithRetry fn 3 initialDelay s0 = (Inr v, s3, [initialDelay, 2 * initialDelay])
       \<and> sum_list [initialDelay, 2 * initialDelay] = 3 * initialDelay"
proof -
  have "callWithRetry fn 3 initialDelay s0 =
        callWithRetry_loop fn 3 1 (initialDelay * 2) (Some e1) s1 [initialDelay]"
    unfolding callWithRetry_def using assms(1,2)
    by (subst callWithRetry_loop.simps) (simp add: eval_nat_numeral)
  also have "\<dots> = callWithRetry_loop fn 3 2 (initialDelay * 2 * 2) (Some e2) s2 [initialDelay, initialDelay * 2]"
    using assms(3,4) by (subst callWithRetry_loop.simps) (simp add: eval_nat_numeral)
  also have "\<dots> = (Inr v, s3, [initialDelay, initialDelay * 2])"
    using assms(5) by (subst callWithRetry_loop.simps) (simp add: eval_nat_numeral)
  finally show ?thesis by simp
qed

theorem retry_twice_then_success_witness:
  "failTwice 0 = (Inl err429, 1) \<and> isRateLimit err429
   \<and> failTwice 1 = (Inl errTooMany, 2) \<and> isRateLimit errTooMany
   \<and> failTwice 2 = (Inr ''ok'', 3)
   \<and> callWithRetry failTwice 3 2000 0 = (Inr ''ok'', 3, [2000, 4000])
   \<and> sum_list [2000, 4000 :: int] = 6000"
proof -
  have a: "failTwice 0 = (Inl err429, 1)" and b: "failTwice 1 = (Inl errTooMany, 2)"
    and c: "failTwice 2 = (Inr ''ok'', 3)"
    by (simp_all add: failTwice_def)
  from retry_twice_then_success [OF a example_errors(1) b example_errors(2) c, of 2000]
    a b c example_errors(1,2)
  show ?thesis by simp
qed

text \<open>
  C6. When the first \<open>k\<close> calls throw rate-limit errors and call number \<open>k\<close> throws an
  error that either carries no rate-limit marker or is the last attempt allowed, the
  wrapper throws that very error, right after that call and having slept only the \<open>k\<close>
  delays before it. Whenever at least one attempt is allowed, what the wrapper returns or
  throws is what the operation itself returned or threw in its last call made: the first
  call that is not a rate-limited failure, or the last attempt allowed.
\<close>

theorem retry_propagates_last_error:
  "((\<forall>j<k. rateLimited fn s j) \<and> k < retries \<and> attempt fn s k = Inl err
      \<and> (\<not> isRateLimit err \<or> Suc k = retries)
     \<longrightarrow> callWithRetry fn retries d s = (Inl (Some err), stateAfter fn s (Suc k), backoff d k))
   \<and> (0 < retries \<longrightarrow>
        (\<exists>n<retries. (\<forall>j<n. rateLimited fn s j) \<and> (Suc n = retries \<or> \<not> rateLimited fn s n)
           \<and> callWithRetry fn retries d s
               = (map_sum Some id (attempt fn s n), stateAfter fn s (Suc n), backoff d n)))"
proof (intro conjI impI)
  assume a: "(\<forall>j<k. rateLimited fn s j) \<and> k < retries \<and> attempt fn s k = Inl err
      \<and> (\<not> isRateLimit err \<or> Suc k = retries)"
  then have "Suc k = retries \<or> \<not> rateLimited fn s k"
    by (auto simp: rateLimited_def)
  with a have "callWithRetry fn retries d s =
      (map_sum Some id (attempt fn s k), stateAfter fn s (Suc k), backoff d k)"
    by (intro last_attempt) auto
  with a show "callWithRetry fn retries d s = (Inl (Some err), stateAfter fn s (Suc k), backoff d k)"
    by simp
next
  assume pos: "0 < retries"
  show "\<exists>n<retries. (\<forall>j<n. rateLimited fn s j) \<and> (Suc n = retries \<or> \<not> rateLimited fn s n)
           \<and> callWithRetry fn retries d s
               = (map_sum Some id (attempt fn s n), stateAfter fn s (Suc n), backoff d n)"
  proof (cases "\<exists>j<retries. \<not> rateLimited fn s j")
    case True
    define n where "n = (LEAST j. \<not> rateLimited fn s j)"
    from True obtain j where j: "j < retries" "\<not> rateLimited fn s j" by blast
    then have n: "\<not> rateLimited fn s n" "n \<le> j"
      unfolding n_def
      using LeastI [of "\<lambda>j. \<not> rateLimited fn s j" j] Least_le [of "\<lambda>j. \<not> rateLimited fn s j" j]
      by auto
    have before: "\<forall>i<n. rateLimited fn s i"
      unfolding n_def using not_less_Least by blast
    with n j have "callWithRetry fn retries d s
            = (map_sum Some id (attempt fn s n), stateAfter fn s (Suc n), backoff d n)"
      by (intro last_attempt) auto
    with n j before show ?thesis by (intro exI [of _ n]) simp
  next
    case False
    with pos have "callWithRetry fn retries d s
            = (map_sum Some id (attempt fn s (retries - 1)), stateAfter fn s (Suc (retries - 1)),
               backoff d (retries - 1))"
      by (intro last_attempt) auto
    with pos False show ?thesis by (intro exI [of _ "retries - 1"]) simp
  qed
qed

lemma stateAfter_examples:
  "stateAfter failOnce500 0 (Suc 0) = 1" "stateAfter failOnce500 0 (Suc (Suc 0)) = 2"
  "stateAfter alwaysLimited 0 (Suc 0) = 1" "stateAfter alwaysLimited 0 (Suc (Suc 0)) = 2"
  "stateAfter alwaysLimited 0 (Suc (Suc (Suc 0))) = 3"
  by (simp_all add: failOnce500_def alwaysLimited_def)

theorem retry_propagates_last_error_witness:
  "rateLimited failOnce500 0 0 \<and> attempt failOnce500 0 1 = Inl err500 \<and> \<not> isRateLimit err500
   \<and> callWithRetry failOnce500 3 2000 0 = (Inl (Some err500), 2, [2000])
   \<and> rateLimited alwaysLimited 0 0 \<and> rateLimited alwaysLimited 0 1
   \<and> attempt alwaysLimited 0 2 = Inl errQuota \<and> isRateLimit errQuota
   \<and> callWithRetry alwaysLimited 3 2000 0 = (Inl (Some errQuota), 3, [2000, 4000])"
proof -
  have a: "\<forall>j<1. rateLimited failOnce500 0 j"
    by (simp add: rateLimited_def attempt_def failOnce500_def example_errors)
  have b: "attempt failOnce500 0 1 = Inl err500"
    by (simp add: attempt_def stateAfter_examples del: stateAfter.simps) (simp add: failOnce500_def)
  have c: "\<forall>j<2. rateLimited alwaysLimited 0 j"
    by (auto simp: rateLimited_def attempt_def alwaysLimited_def example_errors less_2_cases_iff)
  have e: "attempt alwaysLimited 0 2 = Inl errQuota"
    by (simp add: attempt_def eval_nat_numeral stateAfter_examples del: stateAfter.simps)
       (simp add: alwaysLimited_def)
  have f: "backoff 2000 (Suc 0) = [2000]" "backoff 2000 (Suc (Suc 0)) = [2000, 4000]"
    by (simp_all add: backoff_def)
  from retry_propagates_last_error [of 1 failOnce500 0 3 err500 2000] a b example_errors(4)
  have 1: "callWithRetry failOnce500 3 2000 0 = (Inl (Some err500), 2, [2000])"
    by (simp add: eval_nat_numeral stateAfter_examples f del: stateAfter.simps)
  from retry_propagates_last_error [of 2 alwaysLimited 0 3 errQuota 2000] c e
  have 2: "callWithRetry alwaysLimited 3 2000 0 = (Inl (Some errQuota), 3, [2000, 4000])"
    by (simp add: eval_nat_numeral stateAfter_examples f del: stateAfter.simps)
  from a b c e 1 2 example_errors show ?thesis by simp
qed

section \<open>Properties of the cache\<close>

lemma isSpace_toLowerChar: "isSpace (toLowerChar c) = isSpace c"
proof -
  have "of_char (char_of (of_char c + 32 :: nat)) = (of_char c + 32 :: nat)"
    if "(of_char c :: nat) \<le> 90"
    using that by simp
  then show ?thesis
    by (auto simp: isSpace_def toLowerChar_def Let_def)
qed

lemma dropWhile_isSpace_toLowerCase:
  "dropWhile isSpace (toLowerCase s) = toLowerCase (dropWhile isSpace s)"
  by (induction s) (simp_all add: toLowerCase_def isSpace_toLowerChar)

lemma trim_toLowerCase: "trim (toLowerCase s) = toLowerCase (trim s)"
proof -
  have "rev (toLowerCase s) = toLowerCase (rev s)" for s
    by (simp add: toLowerCase_def rev_map)
  then show ?thesis
    by (simp add: trim_def dropWhile_isSpace_toLowerCase)
qed

lemma same_normalizedName:
  "differOnlyInCaseAndOuterSpace a b \<Longrightarrow> trim (toLowerCase a) = trim (toLowerCase b)"
  by (simp add: differOnlyInCaseAndOuterSpace_def trim_toLowerCase)




lemma miss_fetches:
  assumes "\<not> liveEntry medicineCache now medicineName"
  shows "getMedicineDetails generateContent JSON_parse now storedAt medicineCache s medicineName
         = fetchMedicineDetails generateContent JSON_parse storedAt medicineCache s medicineName
             (trim (toLowerCase medicineName))"
  using assms by (simp add: getMedicineDetails_def liveEntry_def split: option.splits)

lemma example_names:
  "trim (toLowerCase ''Aspirin'') = ''aspirin''"
  "trim (toLowerCase '' ASPIRIN '') = ''aspirin''"
  "differOnlyInCaseAndOuterSpace ''Aspirin'' '' ASPIRIN ''"
  by code_simp+

lemma alwaysDown_retry:
  "callWithRetry (alwaysDown medicineName) 3 2000 n = (Inl (Some err500), n + 1, [])"
  unfolding callWithRetry_def
  by (subst callWithRetry_loop.simps) (simp add: alwaysDown_def example_errors)

lemma answersJson_retry:
  "callWithRetry (answersJson medicineName) 3 2000 n =
     (Inr (Inr fencedJson), n + 1, [])"
  unfolding callWithRetry_def
  by (subst callWithRetry_loop.simps) (simp add: answersJson_def)

lemma answersJson_content:
  "fencedJson \<noteq> []"
  "trim (stripFences fencedJson) = ''{}''"
  "parseBraces ''{}'' = Some ''{}''"
  by code_simp+

lemma alwaysDown_lookup:
  "getMedicineDetails alwaysDown parseBraces now storedAt Map.empty n medicineName
     = (Fallback (createFallbackMedicineDetails medicineName), Map.empty, n + 1, 1)"
  by (simp add: getMedicineDetails_def fetchMedicineDetails_def alwaysDown_retry)

text \<open>
  C7, as stated, fails: when the remote lookup of the first call fails, nothing is
  cached, and a second call five seconds later, for the same name in another case and
  with spaces around it, starts the remote lookup again and returns a new fallback.
\<close>

theorem failed_lookup_is_repeated:
  "differOnlyInCaseAndOuterSpace ''Aspirin'' '' ASPIRIN ''
   \<and> (5000 :: int) - 0 < CACHE_TTL
   \<and> getMedicineDetails alwaysDown parseBraces 0 10 Map.empty 0 ''Aspirin''
       = (Fallback (createFallbackMedicineDetails ''Aspirin''), Map.empty, 1, 1)
   \<and> getMedicineDetails alwaysDown parseBraces 5000 5010 Map.empty 1 '' ASPIRIN ''
       = (Fallback (createFallbackMedicineDetails '' ASPIRIN ''), Map.empty, 2, 1)"
  by (simp add: example_names alwaysDown_lookup CACHE_TTL_def)

text \<open>
  C7, amended. When the first call finds no live entry and its remote lookup returns a
  text that parses, the parsed value is stored under the lower-cased, trimmed name. A
  second call whose name differs only in case and outer white space has the same key;
  made less than an hour after the entry was written, it returns the stored value,
  whatever the remote service and its state are then, without starting a remote lookup
  and without changing the cache: one remote lookup over the two calls.
\<close>

theorem second_lookup_hits_cache:
  assumes "\<not> liveEntry medicineCache firstNow firstName"
    and "callWithRetry (generateContent firstName) 3 2000 s = (Inr (Inr content), s', slept)"
    and "content \<noteq> []"
    and "trim (stripFences content) \<noteq> ''null''"
    and "JSON_parse (trim (stripFences content)) = Some parsed"
    and "differOnlyInCaseAndOuterSpace firstName secondName"
    and "secondNow - firstStoredAt < CACHE_TTL"
  shows "trim (toLowerCase firstName) = trim (toLowerCase secondName)
       \<and> getMedicineDetails generateContent JSON_parse firstNow firstStoredAt medicineCache s firstName
           = (Parsed parsed,
              medicineCache(trim (toLowerCase firstName) \<mapsto> \<lparr> data = parsed, timestamp = firstStoredAt \<rparr>),
              s', 1)
       \<and> getMedicineDetails generateContent' JSON_parse' secondNow secondStoredAt
             (medicineCache(trim (toLowerCase firstName) \<mapsto> \<lparr> data = parsed, timestamp = firstStoredAt \<rparr>))
             secondState secondName
           = (Parsed parsed,
              medicineCache(trim (toLowerCase firstName) \<mapsto> \<lparr> data = parsed, timestamp = firstStoredAt \<rparr>),
              secondState, 0)"
proof (intro conjI)
  show key: "trim (toLowerCase firstName) = trim (toLowerCase secondName)"
    using assms(6) by (rule same_normalizedName)
  show "getMedicineDetails generateContent JSON_parse firstNow firstStoredAt medicineCache s firstName
           = (Parsed parsed,
              medicineCache(trim (toLowerCase firstName) \<mapsto> \<lparr> data = parsed, timestamp = firstStoredAt \<rparr>),
              s', 1)"
    unfolding miss_fetches [OF assms(1)] using assms(2-5)
    by (simp add: fetchMedicineDetails_def)
  let ?cache = "medicineCache(trim (toLowerCase firstName) \<mapsto> \<lparr> data = parsed, timestamp = firstStoredAt \<rparr>)"
  have "?cache (trim (toLowerCase secondName)) = Some \<lparr> data = parsed, timestamp = firstStoredAt \<rparr>"
    using key by simp
  with assms(7)
  show "getMedicineDetails generateContent' JSON_parse' secondNow secondStoredAt ?cache secondState secondName
           = (Parsed parsed, ?cache, secondState, 0)"
    by (simp add: getMedicineDetails_def)
qed

theorem second_lookup_hits_cache_witness:
  "\<not> liveEntry (Map.empty :: string \<rightharpoonup> string CacheEntry) 0 ''Aspirin''
   \<and> callWithRetry (answersJson ''Aspirin'') 3 2000 0
       = (Inr (Inr fencedJson), 1, [])
   \<and> fencedJson \<noteq> []
   \<and> trim (stripFences fencedJson) \<noteq> ''null''
   \<and> parseBraces (trim (stripFences fencedJson))
       = Some ''{}''
   \<and> differOnlyInCaseAndOuterSpace ''Aspirin'' '' ASPIRIN ''
   \<and> (5000 :: int) - 10 < CACHE_TTL
   \<and> getMedicineDetails answersJson parseBraces 0 10 Map.empty 0 ''Aspirin''
       = (Parsed ''{}'', [''aspirin'' \<mapsto> \<lparr> data = ''{}'', timestamp = 10 \<rparr>], 1, 1)
   \<and> getMedicineDetails alwaysDown parseBraces 5000 5010
         [''aspirin'' \<mapsto> \<lparr> data = ''{}'', timestamp = 10 \<rparr>] 1 '' ASPIRIN ''
       = (Parsed ''{}'', [''aspirin'' \<mapsto> \<lparr> data = ''{}'', timestamp = 10 \<rparr>], 1, 0)"
proof -
  have a: "\<not> liveEntry (Map.empty :: string \<rightharpoonup> string CacheEntry) 0 ''Aspirin''"
    by (simp add: liveEntry_def)
  have d: "trim (stripFences fencedJson) \<noteq> ''null''"
    by (simp add: answersJson_content)
  have e: "parseBraces (trim (stripFences fencedJson))
       = Some ''{}''"
    by (simp add: answersJson_content)
  have g: "(5000 :: int) - 10 < CACHE_TTL"
    by (simp add: CACHE_TTL_def)
  have b: "callWithRetry (answersJson ''Aspirin'') 3 2000 0 = (Inr (Inr fencedJson), 1, [])"
    using answersJson_retry [of "''Aspirin''" 0] by simp
  from second_lookup_hits_cache [where generateContent = answersJson and firstName = "''Aspirin''"
      and generateContent' = alwaysDown and JSON_parse' = parseBraces and secondStoredAt = 5010
      and secondState = 1 and firstNow = 0 and JSON_parse = parseBraces
      and medicineCache = Map.empty and content = fencedJson and parsed = "''{}''"
      and secondName = "'' ASPIRIN ''" and secondNow = 5000 and firstStoredAt = 10
      and s = 0 and s' = 1 and slept = "[]",
      OF a b answersJson_content(1) d e example_names(3) g]
    a b answersJson_content(1) d e example_names(3) g
  show ?thesis by (simp add: example_names)
qed






section \<open>Properties of the distance ranking\<close>

text \<open>
  Two bounds of the arc tangent by its series, and with Machin's formula the first four
  digits of pi: enough to tell on which side of a rounding step a distance lies.
\<close>

lemma arctan_upper5:
  assumes "0 \<le> x"
  shows "arctan x \<le> x - x^3 / 3 + x^5 / 5"
proof -
  define g where "g = (\<lambda>t::real. t - t^3 / 3 + t^5 / 5 - arctan t)"
  have "g 0 \<le> g x"
  proof (rule DERIV_nonneg_imp_nondecreasing [OF assms])
    fix t :: real
    assume "0 \<le> t" "t \<le> x"
    have "(g has_real_derivative (1 - t^2 + t^4 - 1 / (1 + t^2))) (at t)"
      unfolding g_def by (auto intro!: derivative_eq_intros simp: field_simps)
    moreover have "1 - t^2 + t^4 - 1 / (1 + t^2) = t^6 / (1 + t^2)"
    proof -
      have "0 < 1 + t^2" by (intro add_pos_nonneg) simp_all
      then have "1 + t^2 \<noteq> 0" by simp
      then show ?thesis by (simp add: field_simps power_numeral_reduce; algebra)
    qed
    moreover have "0 \<le> t^6 / (1 + t^2)" by simp
    ultimately show "\<exists>y. (g has_real_derivative y) (at t) \<and> 0 \<le> y" by metis
  qed
  then show ?thesis by (simp add: g_def)
qed

lemma arctan_lower7:
  assumes "0 \<le> x"
  shows "x - x^3 / 3 + x^5 / 5 - x^7 / 7 \<le> arctan x"
proof -
  define g where "g = (\<lambda>t::real. arctan t - (t - t^3 / 3 + t^5 / 5 - t^7 / 7))"
  have "g 0 \<le> g x"
  proof (rule DERIV_nonneg_imp_nondecreasing [OF assms])
    fix t :: real
    assume "0 \<le> t" "t \<le> x"
    have "(g has_real_derivative (1 / (1 + t^2) - (1 - t^2 + t^4 - t^6))) (at t)"
      unfolding g_def by (auto intro!: derivative_eq_intros simp: field_simps)
    moreover have "1 / (1 + t^2) - (1 - t^2 + t^4 - t^6) = t^8 / (1 + t^2)"
    proof -
      have "0 < 1 + t^2" by (intro add_pos_nonneg) simp_all
      then have "1 + t^2 \<noteq> 0" by simp
      then show ?thesis by (simp add: field_simps power_numeral_reduce; algebra)
    qed
    moreover have "0 \<le> t^8 / (1 + t^2)" by simp
    ultimately show "\<exists>y. (g has_real_derivative y) (at t) \<and> 0 \<le> y" by metis
  qed
  then show ?thesis by (simp add: g_def)
qed

lemma pi_bounds: "3.1415 < pi" "pi < 3.1417"
proof -
  have m: "pi = 16 * arctan (1 / 5) - 4 * arctan (1 / 239)"
    using machin by simp
  have a1: "arctan (1 / 5) \<le> (1 / 5) - (1 / 5)^3 / 3 + (1 / 5)^5 / 5"
    by (rule arctan_upper5) simp
  have a2: "(1 / 5) - (1 / 5)^3 / 3 + (1 / 5)^5 / 5 - (1 / 5)^7 / 7 \<le> arctan (1 / 5)"
    by (rule arctan_lower7) simp
  have b1: "arctan (1 / 239) \<le> (1 / 239) - (1 / 239)^3 / 3 + (1 / 239)^5 / 5"
    by (rule arctan_upper5) simp
  have b2: "(1 / 239) - (1 / 239)^3 / 3 + (1 / 239)^5 / 5 - (1 / 239)^7 / 7 \<le> arctan (1 / 239)"
    by (rule arctan_lower7) simp
  show "3.1415 < pi" using m a2 b1 by (simp add: power_numeral_reduce)
  show "pi < 3.1417" using m a1 b2 by (simp add: power_numeral_reduce)
qed

text \<open>
  Between two points of one meridian the formula gives the length of the arc: the
  difference of the latitudes in radians times the radius of 6371 km.
\<close>

lemma haversine_same_meridian:
  assumes "lat1 \<le> lat2" and "lat2 - lat1 < 180"
  shows "haversineKm lat1 lon lat2 lon = 6371 * ((lat2 - lat1) * pi / 180)"
proof -
  define x where "x = (lat2 - lat1) * pi / 180 / 2"
  have "0 \<le> (lat2 - lat1) / 360" "(lat2 - lat1) / 360 < 1 / 2"
    using assms by simp_all
  then have "0 \<le> (lat2 - lat1) / 360 * pi" "(lat2 - lat1) / 360 * pi < 1 / 2 * pi"
    using pi_gt_zero by (simp_all del: times_divide_eq_left)
  then have x: "0 \<le> x" "x < pi / 2"
    by (simp_all add: x_def)
  have s: "0 \<le> sin x"
    using x by (intro sin_ge_zero) linarith+
  have c: "0 < cos x"
    using x by (intro cos_gt_zero_pi) linarith+
  have a: "haversineKm lat1 lon lat2 lon =
      6371 * (2 * atan2 (sqrt (sin x * sin x)) (sqrt (1 - sin x * sin x)))"
    unfolding haversineKm_def Let_def x_def by simp
  have "1 - sin x * sin x = cos x * cos x"
    using sin_cos_squared_add [of x] by (simp add: power2_eq_square algebra_simps)
  then have "atan2 (sqrt (sin x * sin x)) (sqrt (1 - sin x * sin x)) = arctan (sin x / cos x)"
    using s c by (simp add: atan2_def)
  also have "\<dots> = x"
    using x arctan_tan [of x] by (simp add: tan_def)
  finally have b: "atan2 (sqrt (sin x * sin x)) (sqrt (1 - sin x * sin x)) = x" .
  show ?thesis
    unfolding a b by (simp add: x_def)
qed

text \<open>
  The rounded distance is at most 15 exactly when the distance is below 15.005.
\<close>

lemma toFixed2_le_15: "toFixed2 x \<le> 15 \<longleftrightarrow> x < 15.005"
proof (cases "x < 0")
  case True
  then have "0 \<le> round (- x * 100)"
    by (simp add: round_def)
  with True show ?thesis by (simp add: toFixed2_def)
next
  case False
  have "of_int (round (x * 100)) / 100 \<le> (15::real) \<longleftrightarrow> round (x * 100) \<le> 1500"
    by (simp add: field_simps)
  also have "\<dots> \<longleftrightarrow> x * 100 + 1 / 2 < 1501"
    unfolding round_def by (simp add: floor_le_iff)
  also have "\<dots> \<longleftrightarrow> x < 15.005" by (simp add: field_simps)
  finally show ?thesis using False by (simp add: toFixed2_def)
qed

lemma toFixed2_eq:
  assumes "0 \<le> x" and "of_int n - 1 / 2 \<le> x * 100" and "x * 100 < of_int n + 1 / 2"
  shows "toFixed2 x = of_int n / 100"
proof -
  have "round (x * 100) = n"
    unfolding round_def using assms(2,3) by (intro floor_unique) simp_all
  with assms(1) show ?thesis by (simp add: toFixed2_def)
qed


lemma sortedCenters_shown:
  "sortedCenters latitude longitude centers =
     filter (\<lambda>c. shownDistance latitude longitude c \<le> 15)
       (sort_key (shownDistance latitude longitude) centers)"
  unfolding sortedCenters_def shownDistance_def ..

lemma shown_le_15: "shownDistance latitude longitude c \<le> 15 \<longleftrightarrow> rawDistance latitude longitude c < 15.005"
  by (simp add: shownDistance_def rawDistance_def calculateDistance_def toFixed2_le_15)

lemma raw_examples:
  "rawDistance 0 0 justOutside = 6371 * (0.13492 * pi / 180)"
  "rawDistance 0 0 nearer = 6371 * (0.04497 * pi / 180)"
  "rawDistance 0 0 farther = 6371 * (0.04499 * pi / 180)"
  "rawDistance 0 0 farAway = 6371 * (1 * pi / 180)"
  using haversine_same_meridian [of 0 "0.13492" 0] haversine_same_meridian [of 0 "0.04497" 0]
    haversine_same_meridian [of 0 "0.04499" 0] haversine_same_meridian [of 0 1 0]
  by (simp_all add: rawDistance_def justOutside_def nearer_def farther_def farAway_def placeAt_def)

lemma raw_bounds:
  "15 < rawDistance 0 0 justOutside" "rawDistance 0 0 justOutside < 15.005"
  "5 < rawDistance 0 0 nearer" "rawDistance 0 0 nearer < rawDistance 0 0 farther"
  "rawDistance 0 0 farther < 5.005" "15.005 \<le> rawDistance 0 0 farAway"
  unfolding raw_examples using pi_bounds by simp_all

lemma shown_examples:
  "shownDistance 0 0 justOutside = 15"
  "shownDistance 0 0 nearer = 5"
  "shownDistance 0 0 farther = 5"
proof -
  have shown: "shownDistance 0 0 c = of_int n / 100"
    if "0 \<le> rawDistance 0 0 c" "of_int n - 1 / 2 \<le> rawDistance 0 0 c * 100"
      "rawDistance 0 0 c * 100 < of_int n + 1 / 2" for c n
    using toFixed2_eq [OF that]
    by (simp add: shownDistance_def rawDistance_def calculateDistance_def)
  show "shownDistance 0 0 justOutside = 15"
    using shown [of justOutside 1500] raw_bounds(1,2) by simp
  show "shownDistance 0 0 nearer = 5"
    using shown [of nearer 500] raw_bounds(3,4,5) by simp
  show "shownDistance 0 0 farther = 5"
    using shown [of farther 500] raw_bounds(3,4,5) by simp
qed

text \<open>
  C8, as stated, fails twice. A centre about 15.002 km from the origin, farther than
  15 km, is kept: its distance rounds to 15.00. And of two centres about 5.0027 km and
  5.0004 km away, given in this order, the farther one stays first: both distances
  round to 5.00, so the sort leaves them in the order of the input.
\<close>

theorem rounded_distance_is_compared:
  "15 < rawDistance 0 0 justOutside
   \<and> sortedCenters 0 0 [justOutside] = [justOutside]
   \<and> rawDistance 0 0 nearer < rawDistance 0 0 farther
   \<and> sortedCenters 0 0 [farther, nearer] = [farther, nearer]"
  by (simp add: raw_bounds sortedCenters_shown shown_examples)

text \<open>
  C8, amended. The centres returned are in ascending order of the haversine distance
  rounded to two decimals. For every value of the rounded distance the centres returned
  with that value are those of the input with that value, in the order of the input,
  when the value is at most 15, and none otherwise. A centre is returned exactly when
  it is in the input and its distance is below 15.005 km; when every centre is at
  15.005 km or more the result is the empty list. \<^verbatim>\<open>findDonationCenters\<close> ranks
  around the geocoded centre in the same way.
\<close>

theorem ranking_by_shown_distance:
  "sorted (map (shownDistance latitude longitude) (sortedCenters latitude longitude centers))
   \<and> (\<forall>k. filter (\<lambda>c. shownDistance latitude longitude c = k) (sortedCenters latitude longitude centers)
          = filter (\<lambda>c. shownDistance latitude longitude c = k \<and> k \<le> 15) centers)
   \<and> (\<forall>c. c \<in> set (sortedCenters latitude longitude centers) \<longleftrightarrow>
          c \<in> set centers \<and> rawDistance latitude longitude c < 15.005)
   \<and> ((\<forall>c \<in> set centers. 15.005 \<le> rawDistance latitude longitude c) \<longrightarrow>
          sortedCenters latitude longitude centers = [])
   \<and> finalCenters (Some (latitude, longitude)) centers = sortedCenters latitude longitude centers"
proof (intro conjI allI impI)
  let ?d = "shownDistance latitude longitude"
  show "sorted (map ?d (sortedCenters latitude longitude centers))"
    unfolding sortedCenters_shown by (intro sorted_filter sorted_sort_key)
  show "filter (\<lambda>c. ?d c = k) (sortedCenters latitude longitude centers)
          = filter (\<lambda>c. ?d c = k \<and> k \<le> 15) centers" for k
  proof -
    have "filter (\<lambda>c. ?d c = k) (sortedCenters latitude longitude centers)
          = filter (\<lambda>c. ?d c \<le> 15) (filter (\<lambda>c. ?d c = k) (sort_key ?d centers))"
      unfolding sortedCenters_shown by (simp add: conj_commute)
    also have "\<dots> = filter (\<lambda>c. ?d c \<le> 15) (filter (\<lambda>c. ?d c = k) centers)"
      by (simp only: sort_key_stable)
    also have "\<dots> = filter (\<lambda>c. ?d c = k \<and> k \<le> 15) centers"
      by (auto intro: filter_cong)
    finally show ?thesis .
  qed
  show "c \<in> set (sortedCenters latitude longitude centers) \<longleftrightarrow>
          c \<in> set centers \<and> rawDistance latitude longitude c < 15.005" for c
    unfolding sortedCenters_shown by (auto simp: shown_le_15)
  show "sortedCenters latitude longitude centers = []"
    if "\<forall>c \<in> set centers. 15.005 \<le> rawDistance latitude longitude c"
    unfolding sortedCenters_shown using that
    by (auto simp: filter_empty_conv shown_le_15)
  show "finalCenters (Some (latitude, longitude)) centers = sortedCenters latitude longitude centers"
    by (simp add: finalCenters_def sortedCenters_def)
qed

theorem ranking_by_shown_distance_witness:
  "15.005 \<le> rawDistance 0 0 farAway
   \<and> sortedCenters 0 0 [farAway] = []
   \<and> finalCenters (Some (0, 0)) [farAway] = []
   \<and> sortedCenters 0 0 [farAway, justOutside, farther, nearer] = [farther, nearer, justOutside]
   \<and> sorted (map (shownDistance 0 0) [farther, nearer, justOutside])"
proof -
  have far: "\<forall>c \<in> set [farAway]. 15.005 \<le> rawDistance 0 0 c"
    using raw_bounds(6) by simp
  have shownFar: "\<not> shownDistance 0 0 farAway \<le> 15"
    using raw_bounds(6) by (simp add: shown_le_15)
  note t = ranking_by_shown_distance [of 0 0 "[farAway]"]
  from t far have 1: "sortedCenters 0 0 [farAway] = []" by blast
  from t 1 have 2: "finalCenters (Some (0, 0)) [farAway] = []" by simp
  have 3: "sortedCenters 0 0 [farAway, justOutside, farther, nearer] = [farther, nearer, justOutside]"
    using shownFar by (auto simp: sortedCenters_shown shown_examples)
  from ranking_by_shown_distance [of 0 0 "[farAway, justOutside, farther, nearer]"] 3
  have 4: "sorted (map (shownDistance 0 0) [farther, nearer, justOutside])" by simp
  from raw_bounds(6) 1 2 3 4 show ?thesis by blast
qed

end
